theory Spec2Isabelle
  imports Complex_Main "HOL-Library.Sublist" "HOL-Library.Word"
begin

section \<open>Data model\<close>

text \<open>
  Python \<open>str\<close> values are modelled as \<^typ>\<open>string\<close>, read as the UTF-8 encoding of the
  text: splitting at the newline character, joining and concatenation act on the bytes
  exactly as they act on the code points. Python \<open>bytes\<close> are lists of 8-bit words.
\<close>

type_synonym bytes = "8 word list"

text \<open>The exceptions that the two methods can meet inside their \<open>try\<close> blocks.\<close>

datatype exn =
    RequestException string
  | HTTPError nat
  | JSONDecodeError
  | KeyError string
  | IndexError
  | TypeError
  | AttributeError
  | ValueError string

text \<open>
  The Python value that \<open>response.json()\<close> returns, and that \<open>json=payload\<close> sends:
  \<open>None\<close>, a bool, a number, a str, a list, or a dict with str keys. A dict is the list
  of its items, looked up by the first item with the key (a parsed dict has one item per
  key).
\<close>

datatype json =
    JNull
  | JBool bool
  | JNum rat
  | JStr string
  | JArr "json list"
  | JObj "(string \<times> json) list"

record response =
  status_code :: nat
  body :: "json option"

record request =
  url :: string
  headers :: "(string \<times> string) list"
  payload :: json

record generator =
  api_key :: "string option"
  model :: string
  temperature :: rat
  max_tokens :: int
  cache :: "string \<rightharpoonup> string list"
  image_processing_prompt :: string

datatype log_record = INFO string | ERROR string exn

text \<open>
  The state a call runs in: the generator object, the state of the remote service, the
  calls of \<open>requests.post\<close> made so far (oldest first, each as the request it was given)
  and the records logged so far. A backend gives the outcome of one such call, a final
  response or an exception, and the next state of the service.
\<close>

record 'b world =
  self :: generator
  net :: 'b
  sent :: "request list"
  logged :: "log_record list"

type_synonym 'b backend = "'b \<Rightarrow> request \<Rightarrow> (exn + response) \<times> 'b"

section \<open>Library functions used by the program\<close>

definition and_then :: "exn + 'a \<Rightarrow> ('a \<Rightarrow> exn + 'c) \<Rightarrow> exn + 'c" where
  "and_then m f = (case m of Inl e \<Rightarrow> Inl e | Inr x \<Rightarrow> f x)"

text \<open>\<open>s.split(sep)\<close> for a one-character separator: empty pieces are kept.\<close>

fun str_split :: "char \<Rightarrow> string \<Rightarrow> string list" where
  "str_split sep [] = [[]]"
| "str_split sep (c # cs) =
     (if c = sep then [] # str_split sep cs
      else (case str_split sep cs of
              [] \<Rightarrow> [[c]]
            | l # ls \<Rightarrow> (c # l) # ls))"

text \<open>\<open>sep.join(xs)\<close>.\<close>

fun str_join :: "string \<Rightarrow> string list \<Rightarrow> string" where
  "str_join sep [] = []"
| "str_join sep [x] = x"
| "str_join sep (x # y # ys) = x @ sep @ str_join sep (y # ys)"

text \<open>\<open>str(n)\<close> for a Python int: the decimal rendering.\<close>

definition digit_char :: "nat \<Rightarrow> char" where
  "digit_char d = char_of (48 + d)"

fun str_nat :: "nat \<Rightarrow> string" where
  "str_nat n = (if n < 10 then [digit_char n] else str_nat (n div 10) @ [digit_char (n mod 10)])"

definition str_int :: "int \<Rightarrow> string" where
  "str_int i = (if i < 0 then CHR ''-'' # str_nat (nat (- i)) else str_nat (nat i))"

text \<open>\<open>base64.b64encode(data).decode("utf-8")\<close>: the standard alphabet, padded with \<open>=\<close>.\<close>

definition b64_alphabet :: string where
  "b64_alphabet = ''ABCDEFGHIJKLMNOPQRSTUVWXYZabcdefghijklmnopqrstuvwxyz0123456789+/''"

definition b64_char :: "nat \<Rightarrow> char" where
  "b64_char n = b64_alphabet ! (n mod 64)"

fun b64encode :: "bytes \<Rightarrow> string" where
  "b64encode [] = []"
| "b64encode [a] =
     [b64_char (unat a div 4), b64_char ((unat a mod 4) * 16), CHR ''='', CHR ''='']"
| "b64encode [a, b] =
     [b64_char (unat a div 4), b64_char ((unat a mod 4) * 16 + unat b div 16),
      b64_char ((unat b mod 16) * 4), CHR ''='']"
| "b64encode (a # b # c # rest) =
     [b64_char (unat a div 4), b64_char ((unat a mod 4) * 16 + unat b div 16),
      b64_char ((unat b mod 16) * 4 + unat c div 64), b64_char (unat c mod 64)]
     @ b64encode rest"

text \<open>
  \<open>response.raise_for_status()\<close> of the requests library: an error for a status from
  400 up to 599, nothing otherwise.
\<close>

definition raise_for_status :: "response \<Rightarrow> exn + unit" where
  "raise_for_status r =
     (if 400 \<le> status_code r \<and> status_code r < 600 then Inl (HTTPError (status_code r))
      else Inr ())"

text \<open>\<open>response.json()\<close>: the parsed body, or an error when the body is not JSON.\<close>

definition response_json :: "response \<Rightarrow> exn + json" where
  "response_json r = (case body r of None \<Rightarrow> Inl JSONDecodeError | Some j \<Rightarrow> Inr j)"

text \<open>
  Python subscription \<open>v[key]\<close> with a str key: only a dict accepts it. A list or a str
  wants an integer index and the other values are not subscriptable.
\<close>

fun getitem :: "json \<Rightarrow> string \<Rightarrow> exn + json" where
  "getitem (JObj kvs) k = (case map_of kvs k of None \<Rightarrow> Inl (KeyError k) | Some v \<Rightarrow> Inr v)"
| "getitem (JArr xs) k = Inl TypeError"
| "getitem (JStr s) k = Inl TypeError"
| "getitem (JNum n) k = Inl TypeError"
| "getitem (JBool b) k = Inl TypeError"
| "getitem JNull k = Inl TypeError"

text \<open>
  Python subscription \<open>v[0]\<close>: the first element of a list, the first character of a
  str (one code point, so up to four bytes of the encoding); a dict parsed from JSON has
  only str keys, so the key \<open>0\<close> is missing.
\<close>

definition utf8_width :: "char \<Rightarrow> nat" where
  "utf8_width c =
     (let n = (of_char c :: nat)
      in if n < 128 then 1 else if n < 224 then 2 else if n < 240 then 3 else 4)"

fun getitem0 :: "json \<Rightarrow> exn + json" where
  "getitem0 (JArr []) = Inl IndexError"
| "getitem0 (JArr (x # xs)) = Inr x"
| "getitem0 (JStr []) = Inl IndexError"
| "getitem0 (JStr (c # cs)) = Inr (JStr (take (utf8_width c) (c # cs)))"
| "getitem0 (JObj kvs) = Inl (KeyError ''0'')"
| "getitem0 (JNum n) = Inl TypeError"
| "getitem0 (JBool b) = Inl TypeError"
| "getitem0 JNull = Inl TypeError"

text \<open>\<open>v.split('\n')\<close>: only a str has the method.\<close>

fun split_lines :: "json \<Rightarrow> exn + string list" where
  "split_lines (JStr s) = Inr (str_split CHR ''\<newline>'' s)"
| "split_lines (JArr xs) = Inl AttributeError"
| "split_lines (JObj kvs) = Inl AttributeError"
| "split_lines (JNum n) = Inl AttributeError"
| "split_lines (JBool b) = Inl AttributeError"
| "split_lines JNull = Inl AttributeError"

text \<open>\<open>f"{v}"\<close> for a value that is a str or \<open>None\<close>.\<close>

definition format_opt :: "string option \<Rightarrow> string" where
  "format_opt v = (case v of None \<Rightarrow> ''None'' | Some s \<Rightarrow> s)"

definition logger_info :: "string \<Rightarrow> 'b world \<Rightarrow> 'b world" where
  "logger_info m w = w\<lparr>logged := logged w @ [INFO m]\<rparr>"

definition logger_error :: "string \<Rightarrow> exn \<Rightarrow> 'b world \<Rightarrow> 'b world" where
  "logger_error m e w = w\<lparr>logged := logged w @ [ERROR m e]\<rparr>"

text \<open>
  \<open>requests.post(url, headers=..., json=...)\<close>: the call is recorded in \<open>sent\<close> with the
  request it was given, and it returns the final response or raises. What the library
  does on the wire within one call is not modelled: it follows redirects by default, so
  one call can send several HTTP requests, and the response returned is the last one.
  \<open>sent\<close> therefore counts calls of \<open>requests.post\<close>, not HTTP exchanges.
\<close>

definition requests_post :: "'b backend \<Rightarrow> request \<Rightarrow> 'b world \<Rightarrow> (exn + response) \<times> 'b world" where
  "requests_post backend req w =
     (let (r, n) = backend (net w) req
      in (r, w\<lparr>net := n, sent := sent w @ [req]\<rparr>))"

section \<open>The program\<close>

definition completions_url :: string where
  "completions_url = ''https://api.openai.com/v1/chat/completions''"

definition default_prompt :: string where
  "default_prompt =
     ''\<newline>        You are an expert in analyzing and describing visual imagery. Your task is to provide a detailed, rich, and descriptive analysis of the provided image that highlights its key features, elements, and any potential themes or moods it might evoke.\<newline>\<newline>        Instructions:\<newline>        - Review the image and identify the key visual elements and features (e.g., colors, shapes, textures, composition, etc.).\<newline>        - Describe the visual appearance of each person, including their clothing and any distinct characteristics.\<newline>        - Return the description of each person in a list format.\<newline>        ''"

text \<open>\<open>ImageStoryGenerator.__init__\<close>, in the process environment \<open>env\<close>.\<close>

definition init :: "(string \<rightharpoonup> string) \<Rightarrow> generator" where
  "init env =
     \<lparr>api_key = env ''OPENAI_API_KEY'',
      model = ''gpt-4o-mini'',
      temperature = 1 / 2,
      max_tokens = 400,
      cache = Map.empty,
      image_processing_prompt = default_prompt\<rparr>"

text \<open>\<open>result['choices'][0]['message']['content']\<close>.\<close>

definition first_content :: "json \<Rightarrow> exn + json" where
  "first_content result =
     and_then (getitem result ''choices'') (\<lambda>choices.
     and_then (getitem0 choices) (\<lambda>choice.
     and_then (getitem choice ''message'') (\<lambda>message.
     getitem message ''content'')))"

definition auth_headers :: "generator \<Rightarrow> (string \<times> string) list" where
  "auth_headers g =
     [(''Content-Type'', ''application/json''),
      (''Authorization'', ''Bearer '' @ format_opt (api_key g))]"

definition image_payload :: "generator \<Rightarrow> string \<Rightarrow> json" where
  "image_payload g encoded_image =
     JObj [(''model'', JStr (model g)),
           (''messages'',
              JArr [JObj [(''role'', JStr ''user''),
                          (''content'',
                             JArr [JObj [(''type'', JStr ''text''),
                                         (''text'', JStr (image_processing_prompt g))],
                                   JObj [(''type'', JStr ''image_url''),
                                         (''image_url'',
                                            JObj [(''url'',
                                                   JStr (''data:image/jpeg;base64,'' @ encoded_image))])]])]]),
           (''max_tokens'', JNum (of_int (max_tokens g)))]"

text \<open>\<open>ImageStoryGenerator.process_image\<close>.\<close>

definition process_image :: "'b backend \<Rightarrow> bytes \<Rightarrow> 'b world \<Rightarrow> string list \<times> 'b world" where
  "process_image backend image_data w0 =
     (let w1 = logger_info ''Processing image attachment'' w0;
          encoded_image = b64encode image_data;
          (r, w2) = requests_post backend
                      \<lparr>url = completions_url,
                       headers = auth_headers (self w1),
                       payload = image_payload (self w1) encoded_image\<rparr> w1
      in case and_then r (\<lambda>response.
              and_then (raise_for_status response) (\<lambda>_.
              and_then (response_json response) (\<lambda>result.
              and_then (first_content result) split_lines))) of
           Inl e \<Rightarrow> ([], logger_error ''Error processing image: '' e w2)
         | Inr descriptions \<Rightarrow> (descriptions, w2))"

text \<open>
  \<open>repr(s)\<close> of a str, as \<open>str(list)\<close> applies it to every element: single quotes unless
  the text has a single quote and no double quote; the quote and the backslash are
  escaped with a backslash, tab, newline and carriage return are written as a backslash
  and the letter \<open>t\<close>, \<open>n\<close> or \<open>r\<close>, and every other character that is not printable is
  written as a backslash, the letter \<open>x\<close> and two hexadecimal digits.
  \<open>repr_ascii\<close> is the function on texts whose characters are ASCII.
\<close>

definition hex_digit :: "nat \<Rightarrow> char" where
  "hex_digit n = ''0123456789abcdef'' ! (n mod 16)"

definition repr_quote :: "string \<Rightarrow> char" where
  "repr_quote s = (if CHR 0x27 \<in> set s \<and> CHR 0x22 \<notin> set s then CHR 0x22 else CHR 0x27)"

definition repr_char :: "char \<Rightarrow> char \<Rightarrow> string" where
  "repr_char q c =
     (if c = q \<or> c = CHR 0x5C then [CHR 0x5C, c]
      else if c = CHR 0x09 then [CHR 0x5C, CHR ''t'']
      else if c = CHR 0x0A then [CHR 0x5C, CHR ''n'']
      else if c = CHR 0x0D then [CHR 0x5C, CHR ''r'']
      else if (of_char c :: nat) < 32 \<or> (of_char c :: nat) = 127
        then [CHR 0x5C, CHR ''x'', hex_digit ((of_char c :: nat) div 16), hex_digit (of_char c :: nat)]
      else [c])"

definition repr_ascii :: "string \<Rightarrow> string" where
  "repr_ascii s = repr_quote s # concat (map (repr_char (repr_quote s)) s) @ [repr_quote s]"

text \<open>
  The code points of a text, each as the bytes of its UTF-8 encoding: a continuation
  byte (\<open>0x80\<close> to \<open>0xBF\<close>) belongs to the byte before it.
\<close>

definition continuation :: "char \<Rightarrow> bool" where
  "continuation c = (128 \<le> (of_char c :: nat) \<and> (of_char c :: nat) < 192)"

fun utf8_chars :: "string \<Rightarrow> string list" where
  "utf8_chars [] = []"
| "utf8_chars (c # cs) =
     (case utf8_chars cs of
        [] \<Rightarrow> [[c]]
      | u # us \<Rightarrow> (if continuation (hd u) then (c # u) # us else [c] # u # us))"

text \<open>
  The number of a code point, from the bytes of its encoding: the low bits of the first
  byte (five, four or three of them for an encoding of two, three or four bytes), then
  six bits of every continuation byte.
\<close>

definition utf8_code :: "string \<Rightarrow> nat" where
  "utf8_code u =
     foldl (\<lambda>n b. n * 64 + (of_char b :: nat) mod 64)
       ((of_char (hd u) :: nat) mod 2 ^ (7 - length u)) (tl u)"

definition hex_digits :: "nat \<Rightarrow> nat \<Rightarrow> string" where
  "hex_digits k n = map (\<lambda>i. hex_digit (n div 16 ^ i)) (rev [0..<k])"

text \<open>
  The escape of a non-printable code point outside ASCII: a backslash, then \<open>x\<close> and two
  hexadecimal digits up to \<open>0xFF\<close>, \<open>u\<close> and four digits up to \<open>0xFFFF\<close>, \<open>U\<close> and
  eight digits above.
\<close>

definition repr_escape :: "nat \<Rightarrow> string" where
  "repr_escape n =
     (if n \<le> 0xFF then CHR 0x5C # CHR ''x'' # hex_digits 2 n
      else if n \<le> 0xFFFF then CHR 0x5C # CHR ''u'' # hex_digits 4 n
      else CHR 0x5C # CHR ''U'' # hex_digits 8 n)"

text \<open>
  \<open>repr(s)\<close> of any str. Which code points outside ASCII are printable is a table of the
  Unicode character database that comes with the interpreter: it is the argument
  \<open>printable\<close>, a predicate on code point numbers. An ASCII character is treated as in
  \<open>repr_ascii\<close>; a printable code point outside ASCII is copied, another one is escaped.
\<close>

definition repr_point :: "(nat \<Rightarrow> bool) \<Rightarrow> char \<Rightarrow> string \<Rightarrow> string" where
  "repr_point printable q u =
     (if (of_char (hd u) :: nat) < 128 then repr_char q (hd u) @ tl u
      else if printable (utf8_code u) then u
      else repr_escape (utf8_code u))"

definition repr_str :: "(nat \<Rightarrow> bool) \<Rightarrow> string \<Rightarrow> string" where
  "repr_str printable s =
     repr_quote s # concat (map (repr_point printable (repr_quote s)) (utf8_chars s))
       @ [repr_quote s]"

text \<open>
  \<open>str(xs)\<close> of a list of str, as an f-string renders it. The \<open>repr\<close> of the elements is
  an argument, here and in the functions that build the prompt: \<open>repr_str printable\<close> for
  the interpreter's table, which is \<open>repr_ascii\<close> on every text in ASCII.
\<close>

definition str_list :: "(string \<Rightarrow> string) \<Rightarrow> string list \<Rightarrow> string" where
  "str_list repr xs = ''['' @ str_join '', '' (map repr xs) @ '']''"

text \<open>The f-string \<open>story_prompt\<close>, its four fields already rendered as text.\<close>

definition story_prompt :: "string \<Rightarrow> string \<Rightarrow> string \<Rightarrow> string \<Rightarrow> string" where
  "story_prompt names_list genre desired_length image_content =
     ''\<newline>        Based on the following image description and the provided character names: ''
     @ names_list
     @ '', create a short story in the first person that is engaging and creative for a ''
     @ genre
     @ '' audience. The story should be no more than ''
     @ desired_length
     @ '' words.\<newline>\<newline>        Image Description:\<newline>        ''
     @ image_content
     @ ''\<newline>        ''"

definition story_payload :: "generator \<Rightarrow> string \<Rightarrow> json" where
  "story_payload g prompt =
     JObj [(''model'', JStr (model g)),
           (''messages'', JArr [JObj [(''role'', JStr ''user''), (''content'', JStr prompt)]]),
           (''max_tokens'', JNum (of_int (max_tokens g))),
           (''temperature'', JNum (temperature g))]"

definition error_story :: json where
  "error_story = JStr ''Error generating story.''"

text \<open>\<open>ImageStoryGenerator.generate_story_from_image\<close>.\<close>

definition generate_story_from_image ::
  "(string \<Rightarrow> string) \<Rightarrow> 'b backend \<Rightarrow> bytes \<Rightarrow> string list \<Rightarrow> string \<Rightarrow> int \<Rightarrow> 'b world
     \<Rightarrow> json \<times> 'b world" where
  "generate_story_from_image repr backend image_data people_names genre desired_length w0 =
     (let w1 = logger_info ''Generating story from image'' w0;
          (image_content, w2) = process_image backend image_data w1;
          names_list = str_join '', '' people_names;
          prompt = story_prompt names_list genre (str_int desired_length)
                     (str_list repr image_content);
          (r, w3) = requests_post backend
                      \<lparr>url = completions_url,
                       headers = auth_headers (self w2),
                       payload = story_payload (self w2) prompt\<rparr> w2
      in case and_then r (\<lambda>response.
              and_then (raise_for_status response) (\<lambda>_.
              and_then (response_json response) first_content)) of
           Inl e \<Rightarrow> (error_story, logger_error ''Error generating story: '' e w3)
         | Inr story \<Rightarrow> (story, w3))"

text \<open>
  The module body: the credential check at import time, then \<open>run()\<close>, which builds the
  generator (the widgets it wires up afterwards are presentation).
\<close>

definition run :: "(string \<rightharpoonup> string) \<Rightarrow> generator" where
  "run env = init env"

definition module_main :: "(string \<rightharpoonup> string) \<Rightarrow> exn + generator" where
  "module_main env =
     (case env ''OPENAI_API_KEY'' of
        None \<Rightarrow> Inl (ValueError ''API key not found. Make sure to set it in your environment.'')
      | Some key \<Rightarrow> Inr (run env))"

definition start :: "generator \<Rightarrow> 'b \<Rightarrow> 'b world" where
  "start g n = \<lparr>self = g, net = n, sent = [], logged = []\<rparr>"

text \<open>The states a generator and its service can be in: any sequence of calls after \<open>__init__\<close>.\<close>

inductive reachable :: "(string \<Rightarrow> string) \<Rightarrow> 'b backend \<Rightarrow> 'b world \<Rightarrow> bool"
  for repr :: "string \<Rightarrow> string" and backend :: "'b backend" where
  created: "reachable repr backend (start (init env) n)"
| described: "reachable repr backend w \<Longrightarrow>
     reachable repr backend (snd (process_image backend image_data w))"
| composed: "reachable repr backend w \<Longrightarrow>
     reachable repr backend
       (snd (generate_story_from_image repr backend image_data people_names genre desired_length w))"

section \<open>Vocabulary of the specification\<close>

text \<open>The request of the vision stage and of the story stage, as a generator builds them.\<close>

definition vision_request :: "generator \<Rightarrow> bytes \<Rightarrow> request" where
  "vision_request g image_data =
     \<lparr>url = completions_url, headers = auth_headers g,
      payload = image_payload g (b64encode image_data)\<rparr>"

definition story_request :: "generator \<Rightarrow> string \<Rightarrow> request" where
  "story_request g prompt =
     \<lparr>url = completions_url, headers = auth_headers g, payload = story_payload g prompt\<rparr>"

text \<open>The service's answer to the vision request of a call made in state \<open>w\<close>.\<close>

definition vision_answer :: "'b backend \<Rightarrow> bytes \<Rightarrow> 'b world \<Rightarrow> exn + response" where
  "vision_answer backend image_data w = fst (backend (net w) (vision_request (self w) image_data))"

text \<open>
  Inside \<open>generate_story_from_image\<close>: the descriptions its vision stage returns, the
  state it leaves, the prompt built from them and the service's answer to the story
  request.
\<close>

definition inner_descriptions :: "'b backend \<Rightarrow> bytes \<Rightarrow> 'b world \<Rightarrow> string list" where
  "inner_descriptions backend image_data w =
     fst (process_image backend image_data (logger_info ''Generating story from image'' w))"

definition inner_world :: "'b backend \<Rightarrow> bytes \<Rightarrow> 'b world \<Rightarrow> 'b world" where
  "inner_world backend image_data w =
     snd (process_image backend image_data (logger_info ''Generating story from image'' w))"

definition prompt_of :: "(string \<Rightarrow> string) \<Rightarrow> string list \<Rightarrow> string \<Rightarrow> int \<Rightarrow> string list \<Rightarrow> string" where
  "prompt_of repr people_names genre desired_length descriptions =
     story_prompt (str_join '', '' people_names) genre (str_int desired_length)
       (str_list repr descriptions)"

definition story_answer ::
  "(string \<Rightarrow> string) \<Rightarrow> 'b backend \<Rightarrow> bytes \<Rightarrow> string list \<Rightarrow> string \<Rightarrow> int \<Rightarrow> 'b world
     \<Rightarrow> exn + response" where
  "story_answer repr backend image_data people_names genre desired_length w =
     fst (backend (net (inner_world backend image_data w))
            (story_request (self w)
               (prompt_of repr people_names genre desired_length
                  (inner_descriptions backend image_data w))))"

text \<open>
  The response shape \<open>{choices: [{message: {content: ...}}]}\<close>: the content of the first
  choice of a parsed body, when the body has that shape.
\<close>

fun content_of :: "json \<Rightarrow> json option" where
  "content_of (JObj kvs) =
     (case map_of kvs ''choices'' of
        Some (JArr (JObj choice # others)) \<Rightarrow>
          (case map_of choice ''message'' of
             Some (JObj message) \<Rightarrow> map_of message ''content''
           | _ \<Rightarrow> None)
      | _ \<Rightarrow> None)"
| "content_of _ = None"

definition http_error :: "response \<Rightarrow> bool" where
  "http_error r = (400 \<le> status_code r \<and> status_code r < 600)"

text \<open>
  A failing answer to the vision stage: the transport raised, the status is an HTTP
  error, the body is not JSON, or it has no content string at the expected place.
\<close>

fun is_str :: "json \<Rightarrow> bool" where
  "is_str (JStr s) = True"
| "is_str _ = False"

definition vision_failure :: "exn + response \<Rightarrow> bool" where
  "vision_failure a =
     (case a of
        Inl e \<Rightarrow> True
      | Inr r \<Rightarrow>
          http_error r \<or>
          (case body r of
             None \<Rightarrow> True
           | Some j \<Rightarrow> (case content_of j of None \<Rightarrow> True | Some v \<Rightarrow> \<not> is_str v)))"

text \<open>
  A failing answer to the story stage, as the code sees it: the transport raised, the
  status is an HTTP error, the body is not JSON, or the place of the content cannot be
  reached in it.
\<close>

definition story_failure :: "exn + response \<Rightarrow> bool" where
  "story_failure a =
     (case a of
        Inl e \<Rightarrow> True
      | Inr r \<Rightarrow>
          http_error r \<or>
          (case body r of None \<Rightarrow> True | Some j \<Rightarrow> content_of j = None))"

text \<open>
  The \<open>try\<close> block of \<open>process_image\<close> and of \<open>generate_story_from_image\<close>, as a
  function of the service's answer: the value the block returns, or the exception that
  leaves it.
\<close>

definition vision_result :: "exn + response \<Rightarrow> exn + string list" where
  "vision_result a =
     and_then a (\<lambda>response.
     and_then (raise_for_status response) (\<lambda>_.
     and_then (response_json response) (\<lambda>result.
     and_then (first_content result) split_lines)))"

definition story_result :: "exn + response \<Rightarrow> exn + json" where
  "story_result a =
     and_then a (\<lambda>response.
     and_then (raise_for_status response) (\<lambda>_.
     and_then (response_json response) first_content))"

text \<open>The content of the first choice of an answer that carries a parsed body.\<close>

definition story_content :: "exn + response \<Rightarrow> json option" where
  "story_content a =
     (case a of
        Inl e \<Rightarrow> None
      | Inr r \<Rightarrow> (case body r of None \<Rightarrow> None | Some j \<Rightarrow> content_of j))"

text \<open>The non-empty lines of a text, in order.\<close>

definition nonempty_lines :: "string \<Rightarrow> string list" where
  "nonempty_lines s = filter (\<lambda>l. l \<noteq> []) (str_split CHR ''\<newline>'' s)"




section \<open>Services and inputs used in the examples\<close>

text \<open>A service that gives the same answer to every request.\<close>

definition const_backend :: "exn + response \<Rightarrow> unit backend" where
  "const_backend a n req = (a, n)"

text \<open>A service that works through a list of prepared answers, one per request.\<close>

fun scripted :: "(exn + response) list backend" where
  "scripted [] req = (Inl (RequestException ''no answer''), [])"
| "scripted (a # as) req = (a, as)"

definition completion :: "json \<Rightarrow> json" where
  "completion v = JObj [(''choices'', JArr [JObj [(''message'', JObj [(''content'', v)])]])]"

definition ok_response :: "json \<Rightarrow> exn + response" where
  "ok_response j = Inr \<lparr>status_code = 200, body = Some j\<rparr>"

text \<open>A body with two choices.\<close>

definition two_choices :: json where
  "two_choices =
     JObj [(''choices'',
            JArr [JObj [(''message'', JObj [(''content'', JStr ''Alex crept through the fog...'')])],
                  JObj [(''message'', JObj [(''content'', JStr ''Another story'')])]])]"

text \<open>The vision request times out, the story request is answered.\<close>

definition failing_then_story :: "(exn + response) list" where
  "failing_then_story =
     [Inl (RequestException ''timed out''),
      ok_response (completion (JStr ''Alex crept through the fog...''))]"

text \<open>A vision answer that describes two people, one per line.\<close>

definition two_people :: string where
  "two_people = ''A tall man in a red jacket\<newline>A woman with short black hair''"




definition example_env :: "string \<rightharpoonup> string" where
  "example_env = [''OPENAI_API_KEY'' \<mapsto> ''sk-test'']"

definition empty_env :: "string \<rightharpoonup> string" where
  "empty_env = Map.empty"

definition w_unit :: "unit world" where
  "w_unit = start (init example_env) ()"

definition w_script :: "(exn + response) list \<Rightarrow> (exn + response) list world" where
  "w_script as = start (init example_env) as"

section \<open>Basic facts\<close>


declare str_nat.simps [simp del]

lemma getitem_Inr: "(getitem v k = Inr x) = (\<exists>kvs. v = JObj kvs \<and> map_of kvs k = Some x)"
  by (cases v) (auto split: option.splits)

lemma getitem0_Inr_obj: "(getitem0 v = Inr (JObj c)) = (\<exists>xs. v = JArr (JObj c # xs))"
  by (cases v rule: getitem0.cases) auto

lemma and_then_Inr: "(and_then m f = Inr y) = (\<exists>x. m = Inr x \<and> f x = Inr y)"
  by (cases m) (auto simp: and_then_def)

lemma first_content_iff: "(first_content j = Inr v) = (content_of j = Some v)"
proof (cases j)
  case (JObj kvs)
  show ?thesis
    unfolding first_content_def and_then_Inr getitem_Inr JObj
    by (auto simp: getitem0_Inr_obj split: option.splits json.splits list.splits)
qed (simp_all add: first_content_def and_then_def)

lemma first_content_None: "content_of j = None \<Longrightarrow> \<exists>e. first_content j = Inl e"
  using first_content_iff [of j] by (cases "first_content j") auto

lemma process_image_unfold:
  "process_image backend image_data w =
     (let w2 = w\<lparr>logged := logged w @ [INFO ''Processing image attachment''],
                  net := snd (backend (net w) (vision_request (self w) image_data)),
                  sent := sent w @ [vision_request (self w) image_data]\<rparr>
      in case vision_result (vision_answer backend image_data w) of
           Inl e \<Rightarrow> ([], logger_error ''Error processing image: '' e w2)
         | Inr ds \<Rightarrow> (ds, w2))"
  by (simp add: process_image_def vision_result_def vision_answer_def vision_request_def
        requests_post_def logger_info_def Let_def case_prod_beta split: sum.splits)

lemma self_process_image: "self (snd (process_image backend image_data w)) = self w"
  by (simp add: process_image_unfold Let_def logger_error_def split: sum.splits)

lemma sent_process_image:
  "sent (snd (process_image backend image_data w)) = sent w @ [vision_request (self w) image_data]"
  by (simp add: process_image_unfold Let_def logger_error_def split: sum.splits)

lemma net_process_image:
  "net (snd (process_image backend image_data w)) = snd (backend (net w) (vision_request (self w) image_data))"
  by (simp add: process_image_unfold Let_def logger_error_def split: sum.splits)

lemma fst_process_image:
  "fst (process_image backend image_data w) =
     (case vision_result (vision_answer backend image_data w) of Inl e \<Rightarrow> [] | Inr ds \<Rightarrow> ds)"
  by (simp add: process_image_unfold Let_def split: sum.splits)

lemma vision_result_failure: "vision_failure a \<Longrightarrow> \<exists>e. vision_result a = Inl e"
  apply (cases a)
   apply (simp add: vision_result_def and_then_def)
  subgoal for r
    apply (cases "http_error r")
     apply (simp add: vision_result_def and_then_def raise_for_status_def http_error_def)
    apply (cases "body r")
     apply (simp add: vision_result_def and_then_def raise_for_status_def http_error_def response_json_def)
    subgoal for j
      apply (cases "content_of j")
      using first_content_None [of j]
       apply (auto simp add: vision_result_def and_then_def raise_for_status_def http_error_def response_json_def vision_failure_def)[1]
      subgoal for v
        using first_content_iff [of j v]
        by (cases v) (auto simp add: vision_result_def and_then_def raise_for_status_def http_error_def response_json_def vision_failure_def)
      done
    done
  done


lemma generate_unfold:
  "generate_story_from_image repr backend image_data people_names genre desired_length w =
     (let w2 = inner_world backend image_data w;
          req = story_request (self w)
                  (prompt_of repr people_names genre desired_length
                     (inner_descriptions backend image_data w));
          w3 = w2\<lparr>net := snd (backend (net w2) req), sent := sent w2 @ [req]\<rparr>
      in case story_result
                (story_answer repr backend image_data people_names genre desired_length w) of
           Inl e \<Rightarrow> (error_story, logger_error ''Error generating story: '' e w3)
         | Inr story \<Rightarrow> (story, w3))"
  by (simp add: generate_story_from_image_def story_result_def story_answer_def
        story_request_def inner_world_def inner_descriptions_def prompt_of_def
        requests_post_def self_process_image logger_info_def Let_def case_prod_beta
      split: sum.splits)

lemma fst_generate:
  "fst (generate_story_from_image repr backend image_data people_names genre desired_length w) =
     (case story_result
             (story_answer repr backend image_data people_names genre desired_length w) of
        Inl e \<Rightarrow> error_story | Inr story \<Rightarrow> story)"
  by (simp add: generate_unfold Let_def split: sum.splits)

lemma sent_inner_world:
  "sent (inner_world backend image_data w) = sent w @ [vision_request (self w) image_data]"
  by (simp add: inner_world_def sent_process_image logger_info_def)

lemma self_inner_world: "self (inner_world backend image_data w) = self w"
  by (simp add: inner_world_def self_process_image logger_info_def)

lemma sent_generate:
  "sent (snd (generate_story_from_image repr backend image_data people_names genre desired_length w)) =
     sent w @ [vision_request (self w) image_data,
               story_request (self w)
                 (prompt_of repr people_names genre desired_length
                    (inner_descriptions backend image_data w))]"
  by (simp add: generate_unfold Let_def sent_inner_world logger_error_def split: sum.splits)

lemma self_generate:
  "self (snd (generate_story_from_image repr backend image_data people_names genre desired_length w)) = self w"
  by (simp add: generate_unfold Let_def self_inner_world logger_error_def split: sum.splits)

lemma story_result_failure: "story_failure a \<Longrightarrow> \<exists>e. story_result a = Inl e"
proof (cases a)
  case (Inl e)
  then show ?thesis by (simp add: story_result_def and_then_def)
next
  case (Inr r)
  assume f: "story_failure a"
  show ?thesis
  proof (cases "http_error r")
    case True
    then show ?thesis using Inr
      by (simp add: story_result_def and_then_def raise_for_status_def http_error_def)
  next
    case False
    note ok = this
    show ?thesis
    proof (cases "body r")
      case None
      then show ?thesis using Inr ok
        by (simp add: story_result_def and_then_def raise_for_status_def http_error_def
              response_json_def)
    next
      case (Some j)
      with f Inr ok have "content_of j = None" by (simp add: story_failure_def)
      then obtain e where "first_content j = Inl e" using first_content_None by blast
      then show ?thesis using Inr ok Some
        by (simp add: story_result_def and_then_def raise_for_status_def http_error_def
              response_json_def)
    qed
  qed
qed

lemma story_result_success:
  "\<not> http_error r \<Longrightarrow> body r = Some j \<Longrightarrow> content_of j = Some v \<Longrightarrow> story_result (Inr r) = Inr v"
  using first_content_iff [of j v]
  by (simp add: story_result_def and_then_def raise_for_status_def http_error_def response_json_def)

lemma vision_result_success:
  "\<not> http_error r \<Longrightarrow> body r = Some j \<Longrightarrow> content_of j = Some (JStr s) \<Longrightarrow>
     vision_result (Inr r) = Inr (str_split CHR ''\<newline>'' s)"
  using first_content_iff [of j "JStr s"]
  by (simp add: vision_result_def and_then_def raise_for_status_def http_error_def response_json_def)

lemma str_split_not_Nil: "str_split sep s \<noteq> []"
  by (induction s) (auto split: list.splits)

lemma str_split_no_sep: "sep \<notin> set l \<Longrightarrow> str_split sep l = [l]"
  by (induction l) auto

lemma str_split_append_sep:
  "sep \<notin> set l \<Longrightarrow> str_split sep (l @ sep # rest) = l # str_split sep rest"
  by (induction l) auto

lemma str_split_join:
  "ls \<noteq> [] \<Longrightarrow> \<forall>l\<in>set ls. sep \<notin> set l \<Longrightarrow> str_split sep (str_join [sep] ls) = ls"
proof (induction "[sep]" ls rule: str_join.induct)
  case 1
  then show ?case by simp
next
  case (2 x)
  then show ?case by (simp add: str_split_no_sep)
next
  case (3 x y ys)
  then show ?case by (simp add: str_split_append_sep)
qed










lemma vision_answer_const: "vision_answer (const_backend a) image_data w = a"
  by (simp add: vision_answer_def const_backend_def)

section \<open>Claims\<close>

text \<open>
  C8. When the credential \<open>OPENAI_API_KEY\<close> is absent from the process environment, the
  module body stops with the \<open>ValueError\<close> of its credential check: no generator is
  built, so no pipeline component can be used.
\<close>

theorem startup_without_credential_fails:
  assumes "env ''OPENAI_API_KEY'' = None"
  shows "module_main env =
           Inl (ValueError ''API key not found. Make sure to set it in your environment.'')
         \<and> (\<forall>g. module_main env \<noteq> Inr g)"
  using assms by (simp add: module_main_def)

theorem startup_without_credential_fails_witness:
  "empty_env ''OPENAI_API_KEY'' = None \<and>
   module_main empty_env =
     Inl (ValueError ''API key not found. Make sure to set it in your environment.'')"
proof -
  have h: "empty_env ''OPENAI_API_KEY'' = None" by (simp add: empty_env_def)
  from startup_without_credential_fails [of empty_env, OF h] h show ?thesis by blast
qed

text \<open>
  C2, as the code has it. For every image payload, the empty one included, and every
  failing answer of the service to the vision request (the transport raises, the status is an HTTP error that
  \<open>raise_for_status\<close> rejects, the body is not JSON, or the body has no content string at
  \<open>choices[0].message.content\<close>), \<open>process_image\<close> returns the empty list. The function
  has no exceptional result: every exception of its \<open>try\<close> block ends in that return.
\<close>

theorem process_image_failure_returns_empty:
  assumes "vision_failure (vision_answer backend image_data w)"
  shows "fst (process_image backend image_data w) = []"
proof -
  from vision_result_failure [OF assms] obtain e
    where "vision_result (vision_answer backend image_data w) = Inl e" by blast
  then show ?thesis by (simp add: fst_process_image)
qed

theorem process_image_failure_returns_empty_witness:
  "vision_failure (vision_answer (const_backend (Inr \<lparr>status_code = 500, body = None\<rparr>)) [] w_unit) \<and>
   fst (process_image (const_backend (Inr \<lparr>status_code = 500, body = None\<rparr>)) [] w_unit) = []"
proof -
  have h: "vision_failure
             (vision_answer (const_backend (Inr \<lparr>status_code = 500, body = None\<rparr>)) [] w_unit)"
    by (simp add: vision_answer_const vision_failure_def http_error_def)
  from process_image_failure_returns_empty [OF h] h show ?thesis by blast
qed

lemma sent_w_unit: "sent w_unit = []"
  by (simp add: w_unit_def start_def)

text \<open>
  C5, as the code has it, counting calls of \<open>requests.post\<close> (one attempt each; the HTTP
  requests that the library sends within a call, as when it follows a redirect, are not
  counted). Whatever the service does, an invocation of \<open>process_image\<close> makes exactly one
  call, with the vision request to the completion endpoint, and an invocation of
  \<open>generate_story_from_image\<close> makes exactly two: the call of the \<open>process_image\<close>
  invocation it makes itself, then one with the story request. Neither number depends on
  the outcome of a call, so nothing is tried again.
\<close>

theorem requests_per_invocation:
  "sent (snd (process_image backend image_data w)) =
     sent w @ [vision_request (self w) image_data]
   \<and> sent (snd (generate_story_from_image repr backend image_data people_names genre
                   desired_length w)) =
     sent w @ [vision_request (self w) image_data,
               story_request (self w)
                 (prompt_of repr people_names genre desired_length
                    (inner_descriptions backend image_data w))]"
  by (simp only: sent_process_image sent_generate)

theorem requests_per_invocation_witness:
  "length (sent (snd (process_image (const_backend (Inl (RequestException ''down''))) [] w_unit))) = 1"
  using requests_per_invocation
          [of "const_backend (Inl (RequestException ''down''))" "[]" w_unit]
  by (simp add: sent_w_unit)

text \<open>
  C5 as stated fails for the story stage: one invocation of \<open>generate_story_from_image\<close>
  on a fresh generator calls \<open>requests.post\<close> twice, so it issues at least two HTTP
  requests, not one; here with a transport that is down.
\<close>

theorem story_call_sends_two_requests:
  "length (sent (snd (generate_story_from_image repr_ascii
                        (const_backend (Inl (RequestException ''down'')))
                        [] [''Alex''] ''mystery'' 150 w_unit))) = 2"
  by (simp add: sent_generate sent_w_unit)

text \<open>
  C7. Against a deterministic service (its answer is a function of the request alone), a
  second call of \<open>process_image\<close> on the same image, in the state the first call left,
  returns the same descriptions; the first call leaves the generator object as it was.
\<close>

theorem process_image_repeatable:
  assumes "\<forall>n req. fst (backend n req) = f req"
  shows "fst (process_image backend image_data (snd (process_image backend image_data w))) =
           fst (process_image backend image_data w)
         \<and> self (snd (process_image backend image_data w)) = self w"
proof -
  have "vision_answer backend image_data (snd (process_image backend image_data w)) =
        vision_answer backend image_data w"
    using assms by (simp add: vision_answer_def self_process_image)
  then show ?thesis
    by (simp add: fst_process_image self_process_image)
qed

theorem process_image_repeatable_witness:
  "fst (process_image (const_backend (ok_response (completion (JStr ''a''))))
          [] (snd (process_image (const_backend (ok_response (completion (JStr ''a'')))) [] w_unit))) =
   fst (process_image (const_backend (ok_response (completion (JStr ''a'')))) [] w_unit)"
proof -
  have h: "\<forall>n req. fst (const_backend (ok_response (completion (JStr ''a''))) n req) =
             ok_response (completion (JStr ''a''))"
    by (simp add: const_backend_def)
  from process_image_repeatable [OF h] show ?thesis by blast
qed

lemma reachable_self: "reachable repr backend w \<Longrightarrow> \<exists>env. self w = init env"
proof (induction rule: reachable.induct)
  case (created env n)
  show ?case by (auto simp: start_def)
next
  case (described w image_data)
  then show ?case by (simp add: self_process_image)
next
  case (composed w image_data people_names genre desired_length)
  then show ?case by (simp add: self_generate)
qed

lemma vision_request_cache: "vision_request (g\<lparr>cache := c\<rparr>) image_data = vision_request g image_data"
  by (simp add: vision_request_def auth_headers_def image_payload_def)

lemma story_request_cache: "story_request (g\<lparr>cache := c\<rparr>) prompt = story_request g prompt"
  by (simp add: story_request_def auth_headers_def story_payload_def)

lemma vision_answer_cache:
  "vision_answer backend image_data (w\<lparr>self := (self w)\<lparr>cache := c\<rparr>\<rparr>) =
   vision_answer backend image_data w"
  by (simp add: vision_answer_def vision_request_cache)

lemma fst_process_image_cache:
  "fst (process_image backend image_data (w\<lparr>self := (self w)\<lparr>cache := c\<rparr>\<rparr>)) =
   fst (process_image backend image_data w)"
  by (simp add: fst_process_image vision_answer_cache)

lemma net_inner_world:
  "net (inner_world backend image_data w) =
   snd (backend (net w) (vision_request (self w) image_data))"
  by (simp add: inner_world_def net_process_image logger_info_def)

lemma inner_descriptions_eq:
  "inner_descriptions backend image_data w =
     (case vision_result (vision_answer backend image_data w) of Inl e \<Rightarrow> [] | Inr ds \<Rightarrow> ds)"
  by (simp add: inner_descriptions_def fst_process_image vision_answer_def logger_info_def)

lemma fst_generate_cache:
  "fst (generate_story_from_image repr backend image_data people_names genre desired_length
          (w\<lparr>self := (self w)\<lparr>cache := c\<rparr>\<rparr>)) =
   fst (generate_story_from_image repr backend image_data people_names genre desired_length w)"
  by (simp add: fst_generate story_answer_def net_inner_world inner_descriptions_eq
        vision_answer_cache vision_request_cache story_request_cache)

text \<open>
  C9. \<open>__init__\<close> sets the cache to the empty mapping, and in every state that calls of
  \<open>process_image\<close> and \<open>generate_story_from_image\<close> can reach it is still empty. Neither
  method reads it: with any other cache content \<open>c\<close> put in its place, both return the
  same result.
\<close>

theorem cache_stays_empty_and_unused:
  assumes "reachable repr backend w"
  shows "cache (self w) = Map.empty
         \<and> fst (process_image backend image_data (w\<lparr>self := (self w)\<lparr>cache := c\<rparr>\<rparr>)) =
             fst (process_image backend image_data w)
         \<and> fst (generate_story_from_image repr backend image_data people_names genre
                  desired_length (w\<lparr>self := (self w)\<lparr>cache := c\<rparr>\<rparr>)) =
             fst (generate_story_from_image repr backend image_data people_names genre
                    desired_length w)"
proof -
  from reachable_self [OF assms] obtain env where "self w = init env" by blast
  then have "cache (self w) = Map.empty" by (simp add: init_def)
  then show ?thesis by (simp only: fst_process_image_cache fst_generate_cache simp_thms)
qed

theorem cache_stays_empty_and_unused_witness:
  "cache (self (snd (process_image (const_backend (ok_response (completion (JStr ''a'')))) []
                       (start (init example_env) ())))) = Map.empty"
proof -
  have h: "reachable repr_ascii (const_backend (ok_response (completion (JStr ''a''))))
             (snd (process_image (const_backend (ok_response (completion (JStr ''a'')))) []
                     (start (init example_env) ())))"
    by (rule reachable.described) (rule reachable.created)
  from cache_stays_empty_and_unused [OF h] show ?thesis by blast
qed

lemma story_answer_const:
  "story_answer repr (const_backend a) image_data people_names genre desired_length w = a"
  by (simp add: story_answer_def const_backend_def)

lemma content_of_completion: "content_of (completion v) = Some v"
  by (simp add: completion_def)

lemma story_result_ok: "story_result (ok_response (completion v)) = Inr v"
  unfolding ok_response_def
  by (rule story_result_success [of _ "completion v"])
     (simp_all add: http_error_def content_of_completion)

text \<open>
  C6. When the story request is answered without an HTTP error by a body whose
  \<open>choices\<close> list starts with a choice holding \<open>message.content\<close>, the call returns
  exactly that content, unchanged, whatever choices follow the first.
\<close>

theorem story_returns_first_choice_content:
  assumes "story_answer repr backend image_data people_names genre desired_length w = Inr r"
    and "\<not> http_error r"
    and "body r = Some (JObj kvs)"
    and "map_of kvs ''choices'' = Some (JArr (JObj choice # others))"
    and "map_of choice ''message'' = Some (JObj message)"
    and "map_of message ''content'' = Some story"
  shows "fst (generate_story_from_image repr backend image_data people_names genre
                desired_length w) = story"
proof -
  have "content_of (JObj kvs) = Some story"
    using assms(4-6) by simp
  with assms(2,3) have "story_result (Inr r) = Inr story"
    by (rule story_result_success)
  then show ?thesis
    by (simp add: fst_generate assms(1))
qed

theorem story_returns_first_choice_content_witness:
  "fst (generate_story_from_image repr_ascii (const_backend (ok_response two_choices)) []
          [''Alex'', ''Jamie''] ''mystery'' 150 w_unit) = JStr ''Alex crept through the fog...''"
proof -
  have a: "story_answer repr_ascii (const_backend (ok_response two_choices)) []
             [''Alex'', ''Jamie''] ''mystery'' 150 w_unit =
           Inr \<lparr>status_code = 200, body = Some two_choices\<rparr>"
    by (simp add: story_answer_const ok_response_def)
  have b: "\<not> http_error \<lparr>status_code = 200, body = Some two_choices\<rparr>"
    by (simp add: http_error_def)
  have c: "body \<lparr>status_code = 200, body = Some two_choices\<rparr> =
           Some (JObj [(''choices'',
            JArr [JObj [(''message'', JObj [(''content'', JStr ''Alex crept through the fog...'')])],
                  JObj [(''message'', JObj [(''content'', JStr ''Another story'')])]])])"
    by (simp add: two_choices_def)
  have d: "map_of [(''choices'',
            JArr [JObj [(''message'', JObj [(''content'', JStr ''Alex crept through the fog...'')])],
                  JObj [(''message'', JObj [(''content'', JStr ''Another story'')])]])] ''choices'' =
           Some (JArr (JObj [(''message'', JObj [(''content'', JStr ''Alex crept through the fog...'')])]
                 # [JObj [(''message'', JObj [(''content'', JStr ''Another story'')])]]))"
    by simp
  have e: "map_of [(''message'', JObj [(''content'', JStr ''Alex crept through the fog...'')])]
             ''message'' = Some (JObj [(''content'', JStr ''Alex crept through the fog...'')])"
    by simp
  have f: "map_of [(''content'', JStr ''Alex crept through the fog...'')] ''content'' =
           Some (JStr ''Alex crept through the fog...'')"
    by simp
  show ?thesis
    by (rule story_returns_first_choice_content [OF a b c d e f])
qed

lemma generate_success:
  assumes "\<not> story_failure
               (story_answer repr backend image_data people_names genre desired_length w)"
  shows "\<exists>v. story_content
                (story_answer repr backend image_data people_names genre desired_length w) = Some v
             \<and> fst (generate_story_from_image repr backend image_data people_names genre
                      desired_length w) = v"
proof (cases "story_answer repr backend image_data people_names genre desired_length w")
  case (Inl e)
  with assms show ?thesis by (simp add: story_failure_def)
next
  case (Inr r)
  with assms have ok: "\<not> http_error r" by (simp add: story_failure_def)
  from assms Inr obtain j where j: "body r = Some j" and "content_of j \<noteq> None"
    by (cases "body r") (auto simp: story_failure_def)
  then obtain v where v: "content_of j = Some v" by blast
  from ok j v have "story_result (Inr r) = Inr v" by (rule story_result_success)
  then show ?thesis using Inr j v
    by (simp add: fst_generate story_content_def)
qed

lemma generate_failure:
  assumes "story_failure
             (story_answer repr backend image_data people_names genre desired_length w)"
  shows "fst (generate_story_from_image repr backend image_data people_names genre
                desired_length w) = error_story"
proof -
  from story_result_failure [OF assms] obtain e where
    "story_result (story_answer repr backend image_data people_names genre desired_length w) = Inl e"
    by blast
  then show ?thesis by (simp add: fst_generate)
qed


text \<open>
  C3, as the code has it. For all names, genre and length: when the story request fails
  (the transport raises, the status is an HTTP error, the body is not JSON, or the place
  \<open>choices[0].message.content\<close> cannot be reached in it), the call returns the fixed text
  \<open>Error generating story.\<close>; the function has no exceptional result. When the request
  does not fail, the call returns the content found, so it returns that same text exactly
  when the content is that text.
\<close>

theorem story_sentinel_on_failure:
  "(story_failure (story_answer repr backend image_data people_names genre desired_length w)
      \<longrightarrow> fst (generate_story_from_image repr backend image_data people_names genre
                 desired_length w) = error_story)
   \<and> (\<not> story_failure (story_answer repr backend image_data people_names genre desired_length w)
      \<longrightarrow> (fst (generate_story_from_image repr backend image_data people_names genre
                  desired_length w) = error_story)
           = (story_content
                (story_answer repr backend image_data people_names genre desired_length w)
              = Some error_story))"
proof (intro conjI impI)
  assume "story_failure (story_answer repr backend image_data people_names genre desired_length w)"
  then show "fst (generate_story_from_image repr backend image_data people_names genre
                 desired_length w) = error_story"
    by (rule generate_failure)
next
  assume "\<not> story_failure (story_answer repr backend image_data people_names genre desired_length w)"
  from generate_success [OF this] obtain v where
    "story_content (story_answer repr backend image_data people_names genre desired_length w) = Some v"
    "fst (generate_story_from_image repr backend image_data people_names genre desired_length w) = v"
    by blast
  then show "(fst (generate_story_from_image repr backend image_data people_names genre
                  desired_length w) = error_story)
           = (story_content
                (story_answer repr backend image_data people_names genre desired_length w)
              = Some error_story)"
    by simp
qed

theorem story_sentinel_on_failure_witness:
  "story_failure (story_answer repr_ascii (const_backend (Inr \<lparr>status_code = 503, body = None\<rparr>))
                    [] [''Alex''] ''mystery'' 150 w_unit)
   \<and> fst (generate_story_from_image repr_ascii
            (const_backend (Inr \<lparr>status_code = 503, body = None\<rparr>))
            [] [''Alex''] ''mystery'' 150 w_unit) = error_story"
proof -
  have h: "story_failure
             (story_answer repr_ascii (const_backend (Inr \<lparr>status_code = 503, body = None\<rparr>))
                [] [''Alex''] ''mystery'' 150 w_unit)"
    by (simp add: story_answer_const story_failure_def http_error_def)
  from story_sentinel_on_failure
         [of repr_ascii "const_backend (Inr \<lparr>status_code = 503, body = None\<rparr>)"
             "[]" "[''Alex'']" "''mystery''" 150 w_unit] h
  show ?thesis by blast
qed

text \<open>
  C3 as stated fails twice. A body of the expected shape whose content is \<open>null\<close> is
  returned as \<open>None\<close> instead of the sentinel; and a successful answer whose content
  is the sentinel's text gives the very value that signals failure.
\<close>

theorem story_null_content_not_sentinel:
  "fst (generate_story_from_image repr_ascii (const_backend (ok_response (completion JNull)))
          [] [''Alex''] ''mystery'' 150 w_unit) = JNull
   \<and> fst (generate_story_from_image repr_ascii
            (const_backend (ok_response (completion error_story)))
            [] [''Alex''] ''mystery'' 150 w_unit) = error_story"
  by (simp add: fst_generate story_answer_const story_result_ok)

lemma vision_answer_scripted: "vision_answer scripted image_data (w_script (a # as)) = a"
  by (simp add: vision_answer_def w_script_def start_def)

lemma story_answer_scripted:
  "story_answer repr scripted image_data people_names genre desired_length
     (w_script (a # b # bs)) = b"
  by (simp add: story_answer_def net_inner_world w_script_def start_def)

text \<open>
  C10. When the vision stage inside \<open>generate_story_from_image\<close> returns the empty list,
  the call still sends the story request, built on the prompt with the description
  context \<open>[]\<close>, and a story request that does not fail makes the call return the content
  of the answer: an ordinary story.
\<close>

theorem story_proceeds_after_vision_failure:
  assumes "inner_descriptions backend image_data w = []"
  shows "sent (snd (generate_story_from_image repr backend image_data people_names genre
                      desired_length w)) =
           sent w @ [vision_request (self w) image_data,
                     story_request (self w) (prompt_of repr people_names genre desired_length [])]
         \<and> str_list repr [] = ''[]''
         \<and> (\<not> story_failure
                 (story_answer repr backend image_data people_names genre desired_length w)
            \<longrightarrow> story_content
                  (story_answer repr backend image_data people_names genre desired_length w) =
                Some (fst (generate_story_from_image repr backend image_data people_names genre
                             desired_length w)))"
proof (intro conjI impI)
  show "sent (snd (generate_story_from_image repr backend image_data people_names genre
                      desired_length w)) =
           sent w @ [vision_request (self w) image_data,
                     story_request (self w) (prompt_of repr people_names genre desired_length [])]"
    using assms by (simp add: sent_generate)
  show "str_list repr [] = ''[]''"
    by (simp add: str_list_def)
next
  assume "\<not> story_failure
                 (story_answer repr backend image_data people_names genre desired_length w)"
  from generate_success [OF this]
  show "story_content
                  (story_answer repr backend image_data people_names genre desired_length w) =
                Some (fst (generate_story_from_image repr backend image_data people_names genre
                             desired_length w))"
    by auto
qed

theorem story_proceeds_after_vision_failure_witness:
  "inner_descriptions scripted [] (w_script failing_then_story) = []
   \<and> fst (generate_story_from_image repr_ascii scripted [] [''Alex''] ''mystery'' 150
            (w_script failing_then_story)) = JStr ''Alex crept through the fog...''"
proof -
  have h: "inner_descriptions scripted [] (w_script failing_then_story) = []"
    by (simp add: inner_descriptions_eq failing_then_story_def vision_answer_scripted
          vision_result_def and_then_def)
  have a: "story_answer repr_ascii scripted [] [''Alex''] ''mystery'' 150
             (w_script failing_then_story) =
           ok_response (completion (JStr ''Alex crept through the fog...''))"
    by (simp add: failing_then_story_def story_answer_scripted)
  have nf: "\<not> story_failure (ok_response (completion (JStr ''Alex crept through the fog...'')))"
    by (simp add: story_failure_def ok_response_def http_error_def content_of_completion)
  have sc: "story_content (ok_response (completion (JStr ''Alex crept through the fog...''))) =
            Some (JStr ''Alex crept through the fog...'')"
    by (simp add: story_content_def ok_response_def content_of_completion)
  from story_proceeds_after_vision_failure
         [OF h, of repr_ascii "[''Alex'']" "''mystery''" 150] a nf sc h
  show ?thesis by simp
qed







lemma vision_result_ok:
  "vision_result (ok_response (completion (JStr s))) = Inr (str_split CHR ''\<newline>'' s)"
  unfolding ok_response_def
  by (rule vision_result_success [of _ "completion (JStr s)"])
     (simp_all add: http_error_def content_of_completion)

lemma nonempty_lines_same:
  "(str_split CHR ''\<newline>'' s = nonempty_lines s) = ([] \<notin> set (str_split CHR ''\<newline>'' s))"
proof -
  have "(filter (\<lambda>l. l \<noteq> []) (str_split CHR ''\<newline>'' s) = str_split CHR ''\<newline>'' s)
          = (\<forall>l\<in>set (str_split CHR ''\<newline>'' s). l \<noteq> [])"
    by (rule filter_id_conv)
  then show ?thesis
    unfolding nonempty_lines_def by (auto simp: eq_commute [of "str_split CHR ''\<newline>'' s"])
qed

lemma split_of_join:
  assumes "ls \<noteq> []" and "\<forall>l\<in>set ls. CHR ''\<newline>'' \<notin> set l" and "s = str_join ''\<newline>'' ls"
  shows "str_split CHR ''\<newline>'' s = ls"
proof -
  have "str_split CHR ''\<newline>'' (str_join [CHR ''\<newline>''] ls) = ls"
    using assms(1,2) by (rule str_split_join)
  then show ?thesis using assms(3) by simp
qed

lemma split_two_people:
  "str_split CHR ''\<newline>'' two_people =
     [''A tall man in a red jacket'', ''A woman with short black hair'']"
  by code_simp

text \<open>
  C1, as the code has it. When the vision request is answered without an HTTP error by a
  body with a content string at \<open>choices[0].message.content\<close>, \<open>process_image\<close> returns
  the pieces of that string between its newline characters, in order, the empty pieces
  included. That is the list of the non-empty lines exactly when no piece is empty; in
  particular, for a content made of \<open>N \<ge> 1\<close> lines joined by single newlines it returns
  exactly those \<open>N\<close> lines.
\<close>

theorem process_image_returns_split_content:
  assumes "vision_answer backend image_data w = Inr r"
    and "\<not> http_error r"
    and "body r = Some j"
    and "content_of j = Some (JStr s)"
  shows "fst (process_image backend image_data w) = str_split CHR ''\<newline>'' s
         \<and> (fst (process_image backend image_data w) = nonempty_lines s)
             = ([] \<notin> set (str_split CHR ''\<newline>'' s))
         \<and> (\<forall>ls. ls \<noteq> [] \<and> (\<forall>l\<in>set ls. CHR ''\<newline>'' \<notin> set l)
                   \<and> s = str_join ''\<newline>'' ls
               \<longrightarrow> fst (process_image backend image_data w) = ls)"
proof -
  from assms(2-4) have "vision_result (Inr r) = Inr (str_split CHR ''\<newline>'' s)"
    by (rule vision_result_success)
  then have res: "fst (process_image backend image_data w) = str_split CHR ''\<newline>'' s"
    by (simp add: fst_process_image assms(1))
  have "\<forall>ls. ls \<noteq> [] \<and> (\<forall>l\<in>set ls. CHR ''\<newline>'' \<notin> set l)
                   \<and> s = str_join ''\<newline>'' ls
               \<longrightarrow> str_split CHR ''\<newline>'' s = ls"
    using split_of_join by blast
  then show ?thesis
    unfolding res using nonempty_lines_same [of s] by blast
qed

theorem process_image_returns_split_content_witness:
  "fst (process_image (const_backend (ok_response (completion (JStr two_people)))) [] w_unit) =
   [''A tall man in a red jacket'', ''A woman with short black hair'']"
proof -
  have a: "vision_answer (const_backend (ok_response (completion (JStr two_people)))) [] w_unit =
           Inr \<lparr>status_code = 200, body = Some (completion (JStr two_people))\<rparr>"
    by (simp only: vision_answer_const ok_response_def)
  have b: "\<not> http_error \<lparr>status_code = 200, body = Some (completion (JStr two_people))\<rparr>"
    by (simp add: http_error_def)
  have c: "body \<lparr>status_code = 200, body = Some (completion (JStr two_people))\<rparr> =
           Some (completion (JStr two_people))"
    by simp
  have d: "content_of (completion (JStr two_people)) = Some (JStr two_people)"
    by (rule content_of_completion)
  from process_image_returns_split_content [OF a b c d]
  have "fst (process_image (const_backend (ok_response (completion (JStr two_people)))) [] w_unit) =
        str_split CHR ''\<newline>'' two_people"
    by blast
  then show ?thesis by (simp only: split_two_people)
qed

text \<open>
  C1 as stated fails: the empty line between two descriptions is returned as an entry of
  its own, so the result is not the list of the non-empty lines.
\<close>

theorem process_image_keeps_empty_lines:
  "fst (process_image (const_backend (ok_response (completion (JStr ''a\<newline>\<newline>b''))))
          [] w_unit) = [''a'', [], ''b'']
   \<and> nonempty_lines ''a\<newline>\<newline>b'' = [''a'', ''b'']"
proof -
  have s: "str_split CHR ''\<newline>'' ''a\<newline>\<newline>b'' = [''a'', [], ''b'']"
    by code_simp
  have "fst (process_image (const_backend (ok_response (completion (JStr ''a\<newline>\<newline>b''))))
          [] w_unit) = str_split CHR ''\<newline>'' ''a\<newline>\<newline>b''"
    by (simp only: fst_process_image vision_answer_const vision_result_ok sum.case)
  moreover have "nonempty_lines ''a\<newline>\<newline>b'' = [''a'', ''b'']"
    unfolding nonempty_lines_def s by simp
  ultimately show ?thesis by (simp only: s simp_thms)
qed

text \<open>
  C2 as stated fails for a status that is neither a success nor an HTTP error:
  \<open>raise_for_status\<close> lets 300 pass, and the body is parsed as for a success.
\<close>

theorem process_image_ignores_status_300:
  "fst (process_image
          (const_backend (Inr \<lparr>status_code = 300, body = Some (completion (JStr ''a''))\<rparr>))
          [] w_unit) = [''a'']"
proof -
  have "vision_result (Inr \<lparr>status_code = 300, body = Some (completion (JStr ''a''))\<rparr>) =
        Inr (str_split CHR ''\<newline>'' ''a'')"
    by (rule vision_result_success [of _ "completion (JStr ''a'')"])
       (simp_all add: http_error_def content_of_completion)
  then show ?thesis
    by (simp add: fst_process_image vision_answer_const)
qed




lemma utf8_chars_ascii:
  "\<forall>c\<in>set s. (of_char c :: nat) < 128 \<Longrightarrow> utf8_chars s = map (\<lambda>c. [c]) s"
  by (induction s) (auto split: list.splits simp: continuation_def)

lemma repr_point_ascii:
  "(of_char c :: nat) < 128 \<Longrightarrow> repr_point printable q [c] = repr_char q c"
  by (simp add: repr_point_def)

text \<open>On a text in ASCII, \<open>repr_str\<close> is \<open>repr_ascii\<close>, whatever the table.\<close>

lemma repr_str_ascii:
  assumes "\<forall>c\<in>set s. (of_char c :: nat) < 128"
  shows "repr_str printable s = repr_ascii s"
proof -
  have "map (repr_point printable (repr_quote s)) (map (\<lambda>c. [c]) s) =
        map (repr_char (repr_quote s)) s"
    using assms by (simp add: repr_point_ascii)
  then show ?thesis
    by (simp only: repr_str_def repr_ascii_def utf8_chars_ascii [OF assms])
qed


















end
